theory Spec2Isabelle
  imports Complex_Main
begin

section \<open>Conventions of the embedding\<close>

text \<open>
  The post-recording pipeline is Python on top of numpy, MNE and autoreject. The
  functions of the repository are embedded one by one, under their own names.
  \<^item> A numpy array of doubles is a list (nested once per axis) of \<^typ>\<open>real\<close>:
    the arithmetic is the exact one, rounding of doubles is not modelled.
  \<^item> A Python exception is a value \<open>Inl e\<close> of a sum type; a normal return is \<open>Inr v\<close>.
  \<^item> A Python \<open>dict\<close> with string keys is a map \<open>string \<rightharpoonup> 'v\<close>; where the code
    iterates over it, the dict is an association list in insertion order.
  \<^item> Progress output (\<open>print\<close>) is left out, but an exception raised while
    computing what is printed is kept.
\<close>

datatype error =
  IndexError
  | KeyError string
  | ValueError string
  | RuntimeError string
  | TypeError string

section \<open>numpy operations used by the code\<close>

type_synonym array1 = "real list"
type_synonym array2 = "real list list"
type_synonym array3 = "real list list list"

text \<open>
  The result of a floating-point division. numpy does not raise on a zero divisor: it
  returns an infinity or NaN (with a warning). A quotient whose magnitude reaches
  \<open>2^1024 - 2^970\<close>, from where float64 rounds to infinity, is an infinity as well;
  below that bound the quotient is the exact one. The operands are finite doubles.
\<close>

datatype np_float = Finite real | PosInf | NegInf | NaN

definition float64_overflow :: real where
  "float64_overflow = 2 ^ 1024 - 2 ^ 970"

definition np_div :: "real \<Rightarrow> real \<Rightarrow> np_float" where
  "np_div x y =
     (if y = 0 then (if 0 < x then PosInf else if x < 0 then NegInf else NaN)
      else if float64_overflow \<le> x / y then PosInf
      else if x / y \<le> - float64_overflow then NegInf
      else Finite (x / y))"

definition shape2 :: "'a list list \<Rightarrow> nat list" where
  "shape2 a = map length a"

text \<open>
  Broadcasting of a binary operation along one axis: the lengths must be equal or one of
  them 1, and an operand of length 1 is repeated. On two axes the rule applies to the
  rows and, row by row, to the columns. An array without rows does not record how many
  columns it has; its columns are taken to fit (the result has no row in any case).
\<close>

definition broadcastable :: "nat \<Rightarrow> nat \<Rightarrow> bool" where
  "broadcastable m n = (m = n \<or> m = 1 \<or> n = 1)"

definition broadcast_len :: "nat \<Rightarrow> nat \<Rightarrow> nat" where
  "broadcast_len m n = (if m = 1 then n else m)"

definition broadcast_nth :: "'a list \<Rightarrow> nat \<Rightarrow> 'a" where
  "broadcast_nth xs i = (if length xs = 1 then xs ! 0 else xs ! i)"

definition broadcast_map2 :: "('a \<Rightarrow> 'b \<Rightarrow> 'c) \<Rightarrow> 'a list \<Rightarrow> 'b list \<Rightarrow> 'c list" where
  "broadcast_map2 f xs ys =
     map (\<lambda>i. f (broadcast_nth xs i) (broadcast_nth ys i))
       [0..<broadcast_len (length xs) (length ys)]"

definition broadcastable2 :: "'a list list \<Rightarrow> 'b list list \<Rightarrow> bool" where
  "broadcastable2 a b =
     (broadcastable (length a) (length b) \<and>
      list_all (\<lambda>(r, s). broadcastable (length r) (length s)) (broadcast_map2 Pair a b))"

text \<open>
  \<open>a / (b + eps)\<close> on two arrays and a scalar \<open>eps\<close>: ValueError when the shapes
  cannot be broadcast.
\<close>

definition div_shifted :: "array2 \<Rightarrow> array2 \<Rightarrow> real \<Rightarrow> error + np_float list list" where
  "div_shifted a b eps =
     (if broadcastable2 a b
      then Inr (broadcast_map2 (broadcast_map2 (\<lambda>x y. np_div x (y + eps))) a b)
      else Inl (ValueError ''operands could not be broadcast together''))"

text \<open>\<open>a.size\<close>: the number of elements.\<close>

definition size2 :: "'a list list \<Rightarrow> nat" where
  "size2 a = sum_list (map length a)"

text \<open>
  \<open>freqs >= fmin) & (freqs <= fmax\<close>: the boolean mask of the closed interval.
\<close>

definition freq_mask :: "array1 \<Rightarrow> real \<Rightarrow> real \<Rightarrow> bool list" where
  "freq_mask freqs fmin fmax = map (\<lambda>f. fmin \<le> f \<and> f \<le> fmax) freqs"

text \<open>
  \<open>row[mask]\<close>: boolean indexing keeps the entries whose mask bit is set. numpy raises
  IndexError when the mask and the axis differ in length; the caller checks that.
\<close>

definition bool_index :: "'a list \<Rightarrow> bool list \<Rightarrow> 'a list" where
  "bool_index row sel = map fst (filter snd (zip row sel))"

text \<open>
  \<open>np.trapz(y, dx=dx)\<close> along one axis: the sum of \<open>dx * (y[1:] + y[:-1]) / 2\<close>;
  the empty sum, for fewer than two points, is 0.0.
\<close>

definition trapz :: "array1 \<Rightarrow> real \<Rightarrow> real" where
  "trapz y dx = sum_list (map (\<lambda>(lo, hi). dx * (hi + lo) / 2) (zip (butlast y) (tl y)))"

section \<open>psd\_analysis.py\<close>

subsection \<open>Band powers\<close>

definition FREQ_BANDS :: "(string \<times> real \<times> real) list" where
  "FREQ_BANDS =
     [(''delta'', (1 / 2, 4)),
      (''theta'', (4, 8)),
      (''alpha'', (8, 13)),
      (''beta'', (13, 30)),
      (''gamma'', (30, 40))]"

text \<open>
  The body of the loop of \<open>compute_band_powers\<close> for one band: the mask, then
  \<open>freq_res = freqs[1] - freqs[0]\<close> (IndexError on an axis of fewer than two points),
  then the masked slice \<open>psds[:, :, freq_mask]\<close> (IndexError when the last axis of
  \<open>psds\<close> and \<open>freqs\<close> differ in length), then the trapezoidal sum along the last axis.
\<close>

definition band_power :: "array3 \<Rightarrow> array1 \<Rightarrow> real \<Rightarrow> real \<Rightarrow> error + array2" where
  "band_power psds freqs fmin fmax =
     (let sel = freq_mask freqs fmin fmax in
      if length freqs < 2 then Inl IndexError
      else
        let freq_res = freqs ! 1 - freqs ! 0 in
        if \<exists>ep \<in> set psds. \<exists>row \<in> set ep. length row \<noteq> length sel then Inl IndexError
        else Inr (map (map (\<lambda>row. trapz (bool_index row sel) freq_res)) psds))"

fun band_loop ::
  "array3 \<Rightarrow> array1 \<Rightarrow> (string \<times> real \<times> real) list \<Rightarrow> (string \<rightharpoonup> array2)
     \<Rightarrow> error + (string \<rightharpoonup> array2)" where
  "band_loop psds freqs [] band_powers = Inr band_powers"
| "band_loop psds freqs ((band_name, (fmin, fmax)) # bands) band_powers =
     (case band_power psds freqs fmin fmax of
        Inl e \<Rightarrow> Inl e
      | Inr p \<Rightarrow> band_loop psds freqs bands (band_powers(band_name \<mapsto> p)))"

definition compute_band_powers ::
  "array3 \<Rightarrow> array1 \<Rightarrow> (string \<times> real \<times> real) list option \<Rightarrow> error + (string \<rightharpoonup> array2)" where
  "compute_band_powers psds freqs bands =
     band_loop psds freqs (case bands of None \<Rightarrow> FREQ_BANDS | Some b \<Rightarrow> b) Map.empty"

subsection \<open>Ratios\<close>

definition epsilon :: real where
  "epsilon = 1 / 10 ^ 10"

definition lookup :: "(string \<rightharpoonup> 'v) \<Rightarrow> string \<Rightarrow> error + 'v" where
  "lookup d k = (case d k of None \<Rightarrow> Inl (KeyError k) | Some v \<Rightarrow> Inr v)"

text \<open>
  \<open>compute_ratios\<close>. The three lookups raise KeyError on a missing band. The two
  divisions are elementwise with broadcasting. After them the function prints
  \<open>np.min\<close> and \<open>np.max\<close> of \<open>dar\<close> and then of \<open>tar\<close>, which raise ValueError on
  an array without elements; \<open>np.mean\<close> and \<open>np.std\<close> before them only warn.
\<close>

definition compute_ratios ::
  "(string \<rightharpoonup> array2) \<Rightarrow> error + (string \<rightharpoonup> np_float list list)" where
  "compute_ratios band_powers =
     (case lookup band_powers ''delta'' of Inl e \<Rightarrow> Inl e | Inr delta \<Rightarrow>
      case lookup band_powers ''theta'' of Inl e \<Rightarrow> Inl e | Inr theta \<Rightarrow>
      case lookup band_powers ''alpha'' of Inl e \<Rightarrow> Inl e | Inr alpha \<Rightarrow>
      case div_shifted delta alpha epsilon of Inl e \<Rightarrow> Inl e | Inr dar \<Rightarrow>
      case div_shifted theta alpha epsilon of Inl e \<Rightarrow> Inl e | Inr tar \<Rightarrow>
        if size2 dar = 0 \<or> size2 tar = 0
        then Inl (ValueError ''zero-size array to reduction operation minimum which has no identity'')
        else Inr (Map.empty(''DAR'' \<mapsto> dar, ''TAR'' \<mapsto> tar)))"

subsection \<open>The band integrator in the words of the specification\<close>

text \<open>
  The specification describes the integral of one band: select the indices of the
  frequency axis that lie in the closed interval, and apply the trapezoidal rule with a
  fixed step to the spectrum at those indices. These two definitions follow that
  wording; they are compared with \<open>compute_band_powers\<close> below.
\<close>

definition in_band_indices :: "array1 \<Rightarrow> real \<Rightarrow> real \<Rightarrow> nat list" where
  "in_band_indices freqs fmin fmax =
     filter (\<lambda>j. fmin \<le> freqs ! j \<and> freqs ! j \<le> fmax) [0..<length freqs]"

definition trapezoid_rule :: "array1 \<Rightarrow> real \<Rightarrow> real" where
  "trapezoid_rule y dx =
     sum_list (map (\<lambda>i. dx * (y ! i + y ! (i + 1)) / 2) [0..<length y - 1])"

section \<open>MNE and autoreject: objects and library calls\<close>

text \<open>
  \<open>preprocessing.py\<close> and \<open>process_eeg.py\<close> work on MNE objects. A \<open>Raw\<close> object
  is its channel names, its sampling rate and its samples, indexed channel first; all
  channels are EEG channels, as the loader \<open>csv_to_edf\<close> creates them. An \<open>Epochs\<close>
  object is indexed epoch, channel, sample, and carries \<open>selection\<close>, the indices of
  the events it still holds.
\<close>

record raw =
  ch_names :: "string list"
  sfreq :: real
  samples :: "real list list"

record epochs =
  e_ch_names :: "string list"
  e_sfreq :: real
  selection :: "nat list"
  e_data :: "real list list list"

record reject_log =
  bad_epochs :: "bool list"
  labels :: "nat list list"
  log_ch_names :: "string list"

text \<open>The keyword arguments the code passes to the constructor of \<open>AutoReject\<close>.\<close>

record autoreject_params =
  n_interpolate :: "nat list"
  cv :: nat
  random_state :: nat
  n_jobs :: nat

text \<open>
  The numerical routines of the libraries are parameters of the model: nothing is
  assumed about what they compute, and each of them may raise.
  \<^item> \<open>fir_filter l_freq h_freq sfreq xs\<close>: the band-pass FIR filter that \<open>Raw.filter\<close>
    runs along the time axis of one channel;
  \<^item> \<open>ica_fit_apply n_components random_state raw\<close>: \<open>ICA(...).fit(raw)\<close> followed by
    \<open>ica.apply(raw)\<close> with nothing excluded;
  \<^item> \<open>get_rejection_threshold epochs\<close>: the peak-to-peak threshold for the EEG channels
    that autoreject estimates from the epochs it is given;
  \<^item> \<open>autoreject_fit_transform params epochs\<close>: \<open>AutoReject(...).fit_transform(epochs,
    return_log=True)\<close>.
\<close>

record library =
  fir_filter :: "real \<Rightarrow> real \<Rightarrow> real \<Rightarrow> real list \<Rightarrow> error + real list"
  ica_fit_apply :: "nat \<Rightarrow> nat \<Rightarrow> raw \<Rightarrow> error + raw"
  get_rejection_threshold :: "epochs \<Rightarrow> error + real"
  autoreject_fit_transform :: "autoreject_params \<Rightarrow> epochs \<Rightarrow> error + epochs \<times> reject_log"

text \<open>
  The library calls that only slice and select are modelled after the behaviour MNE
  documents for them: \<open>Raw.n_times\<close> and \<open>Raw.times\<close>, \<open>Raw.copy\<close>, \<open>Raw.crop\<close>,
  \<open>make_fixed_length_events\<close>, the constructor of \<open>Epochs\<close> and \<open>Epochs.drop_bad\<close>.
\<close>

definition n_times :: "raw \<Rightarrow> nat" where
  "n_times r = (case samples r of [] \<Rightarrow> 0 | ch # _ \<Rightarrow> length ch)"

text \<open>The samples of a \<open>Raw\<close> object are one array: every channel has \<open>n_times\<close> samples.\<close>

definition rectangular :: "raw \<Rightarrow> bool" where
  "rectangular r = list_all (\<lambda>ch. length ch = n_times r) (samples r)"

text \<open>Python's \<open>round\<close> and numpy's \<open>np.round\<close>: to the nearest integer, ties to even.\<close>

definition py_round :: "real \<Rightarrow> int" where
  "py_round x =
     (let f = \<lfloor>x\<rfloor>; d = x - of_int f
      in if d < 1 / 2 then f else if 1 / 2 < d then f + 1 else if even f then f else f + 1)"

text \<open>
  \<open>raw.crop(tmin, tmax)\<close>: ValueError when \<open>tmin > tmax\<close>, when \<open>tmin < 0\<close> or when
  \<open>tmax\<close> lies after the last sample, at \<open>(n_times - 1) / sfreq\<close>; otherwise the
  samples from \<open>round(tmin * sfreq)\<close> to \<open>round(tmax * sfreq)\<close>, both included.
\<close>

definition raw_crop :: "raw \<Rightarrow> real \<Rightarrow> real \<Rightarrow> error + raw" where
  "raw_crop r tmin tmax =
     (if tmax < tmin then Inl (ValueError ''tmin must be less than tmax'')
      else if tmin < 0 then Inl (ValueError ''tmin must be >= 0'')
      else if real (n_times r - 1) / sfreq r < tmax
        then Inl (ValueError ''tmax must be less than or equal to the max time'')
      else
        let smin = nat (py_round (tmin * sfreq r)); smax = nat (py_round (tmax * sfreq r))
        in Inr (r\<lparr>samples := map (\<lambda>ch. take (smax + 1 - smin) (drop smin ch)) (samples r)\<rparr>))"

text \<open>Collecting results, the first exception wins.\<close>

fun collect :: "(error + 'a) list \<Rightarrow> error + 'a list" where
  "collect [] = Inr []"
| "collect (Inl e # rs) = Inl e"
| "collect (Inr v # rs) = (case collect rs of Inl e \<Rightarrow> Inl e | Inr vs \<Rightarrow> Inr (v # vs))"

text \<open>
  \<open>raw.filter(l_freq, h_freq)\<close> filters every channel on its own along the time axis
  and keeps names and sampling rate.
\<close>

definition raw_filter :: "library \<Rightarrow> raw \<Rightarrow> real \<Rightarrow> real \<Rightarrow> error + raw" where
  "raw_filter lib r l_freq h_freq =
     (case collect (map (fir_filter lib l_freq h_freq (sfreq r)) (samples r)) of
        Inl e \<Rightarrow> Inl e
      | Inr filtered \<Rightarrow> Inr (r\<lparr>samples := filtered\<rparr>))"

text \<open>
  Python objects live in a store, a list of \<open>Raw\<close> objects addressed by position;
  a variable holds an address. \<open>raw.copy()\<close> allocates a new object with the contents of
  the old one; \<open>raw.filter\<close>, \<open>ica.apply\<close> and \<open>raw.crop\<close> overwrite the object they are
  called on.
\<close>

type_synonym store = "raw list"

definition raw_copy :: "store \<Rightarrow> nat \<Rightarrow> store \<times> nat" where
  "raw_copy st a = (st @ [st ! a], length st)"

text \<open>
  \<open>mne.make_fixed_length_events(raw, duration=duration, overlap=0.0)\<close> with the default
  \<open>start=0\<close>, \<open>stop=None\<close>: the events are the samples \<open>int(k * sfreq * duration)\<close> up
  to \<open>n_times - round(sfreq * duration)\<close> inclusive (\<open>np.arange\<close> with that step),
  and ValueError when there is none.
\<close>

definition make_fixed_length_events :: "raw \<Rightarrow> real \<Rightarrow> error + nat list" where
  "make_fixed_length_events r duration =
     (if \<not> 0 < duration then Inl (ValueError ''overlap must be >=0 but < duration'')
      else
        let stop = int (n_times r) - py_round (sfreq r * duration);
            step = sfreq r * duration;
            count = nat \<lceil>of_int (stop + 1) / step\<rceil>;
            ts = map (\<lambda>k. nat \<lfloor>real k * step\<rfloor>) [0..<count]
        in if ts = []
           then Inl (ValueError ''No events produced, check the values of start, stop, and duration'')
           else Inr ts)"

text \<open>
  \<open>mne.Epochs(raw, events, tmin=tmin, tmax=tmax, baseline=None, preload=True)\<close>. The
  window of an event at sample \<open>s\<close> runs from \<open>s + round(tmin * sfreq)\<close> to
  \<open>s + round(tmax * sfreq)\<close>, both ends included. With \<open>preload=True\<close> an event whose
  window does not lie inside the recording is dropped at once, and \<open>selection\<close> keeps
  the indices of the other events. Repeated event samples raise RuntimeError.
\<close>

definition mne_Epochs :: "raw \<Rightarrow> nat list \<Rightarrow> real \<Rightarrow> real \<Rightarrow> error + epochs" where
  "mne_Epochs r events tmin tmax =
     (if tmax < tmin then Inl (ValueError ''tmin has to be less than or equal to tmax'')
      else if \<not> distinct events then Inl (RuntimeError ''Event time samples were not unique'')
      else
        let first = py_round (tmin * sfreq r);
            len = nat (py_round (tmax * sfreq r) - first + 1);
            kept = filter (\<lambda>i. 0 \<le> int (events ! i) + first \<and>
                                nat (int (events ! i) + first) + len \<le> n_times r)
                     [0..<length events]
        in Inr \<lparr>e_ch_names = ch_names r, e_sfreq = sfreq r, selection = kept,
                e_data = map (\<lambda>i. map (\<lambda>ch. take len (drop (nat (int (events ! i) + first)) ch))
                                      (samples r)) kept\<rparr>)"

text \<open>
  Peak-to-peak amplitude of one channel of one epoch, and \<open>epochs.drop_bad(reject)\<close>
  with a threshold for the EEG channels: an epoch is dropped when the peak-to-peak
  amplitude of one of its channels is greater than the threshold; \<open>selection\<close> is
  reduced with the data. (A window always has a sample; \<open>ptp\<close> of no samples is not
  reached.)
\<close>

definition ptp :: "real list \<Rightarrow> real" where
  "ptp xs = (case xs of [] \<Rightarrow> 0 | x # rest \<Rightarrow> fold max rest x - fold min rest x)"

definition exceeds :: "real \<Rightarrow> real list list \<Rightarrow> bool" where
  "exceeds thr epoch = (\<exists>ch \<in> set epoch. thr < ptp ch)"

definition drop_bad :: "epochs \<Rightarrow> real \<Rightarrow> epochs" where
  "drop_bad eps thr =
     eps\<lparr>selection := map fst (filter (\<lambda>(s, ep). \<not> exceeds thr ep) (zip (selection eps) (e_data eps))),
         e_data := filter (\<lambda>ep. \<not> exceeds thr ep) (e_data eps)\<rparr>"

text \<open>\<open>bad_epochs.sum()\<close> on a boolean array: the number of entries that are set.\<close>

definition sum_bool :: "bool list \<Rightarrow> nat" where
  "sum_bool bs = length (filter (\<lambda>b. b) bs)"

section \<open>preprocessing.py\<close>

text \<open>
  \<open>preprocess_raw\<close> is embedded in the order of its source, one definition per step.
  Lines 33 to 53: the copy, the band-pass filter from 0.5 to 40 Hz on the copy, and the
  optional ICA on the copy. The result is the store and the address of the conditioned
  copy, or the exception.
\<close>

definition preprocess_raw_filter ::
  "library \<Rightarrow> store \<Rightarrow> nat \<Rightarrow> bool \<Rightarrow> store \<times> (error + nat)" where
  "preprocess_raw_filter lib st a apply_ica =
     (let (st1, c) = raw_copy st a in
      case raw_filter lib (st1 ! c) (1 / 2) 40 of
        Inl e \<Rightarrow> (st1, Inl e)
      | Inr filtered \<Rightarrow>
          let st2 = st1[c := filtered] in
          if apply_ica then
            (case ica_fit_apply lib (min 4 (length (ch_names filtered))) 42 filtered of
               Inl e \<Rightarrow> (st2, Inl e)
             | Inr cleaned \<Rightarrow> (st2[c := cleaned], Inr c))
          else (st2, Inr c))"

text \<open>
  Lines 56 to 73: the events, \<open>overlap=0.0\<close>, and the epochs from \<open>tmin=0\<close> to
  \<open>tmax=epoch_duration\<close>. The argument \<open>baseline\<close> is \<open>None\<close>, its default and the value
  the pipeline passes.
\<close>

definition preprocess_raw_epochs :: "raw \<Rightarrow> real \<Rightarrow> error + epochs" where
  "preprocess_raw_epochs r epoch_duration =
     (case make_fixed_length_events r epoch_duration of
        Inl e \<Rightarrow> Inl e
      | Inr events \<Rightarrow> mne_Epochs r events 0 epoch_duration)"

text \<open>
  Lines 78 to 99, fewer than ten epochs: one threshold from all epochs, \<open>drop_bad\<close> on a
  copy, and a log built by hand: \<open>bad_epochs[i]\<close> is set for every \<open>i\<close> in
  \<open>range(len(epochs))\<close> that is not in the selection of the cleaned epochs, \<open>labels\<close> is
  all zero.
\<close>

definition preprocess_raw_sparse :: "library \<Rightarrow> epochs \<Rightarrow> error + epochs \<times> reject_log" where
  "preprocess_raw_sparse lib eps =
     (case get_rejection_threshold lib eps of
        Inl e \<Rightarrow> Inl e
      | Inr thr \<Rightarrow>
          let epochs_clean = drop_bad eps thr;
              n = length (e_data eps);
              dropped_indices = filter (\<lambda>i. i \<notin> set (selection epochs_clean)) [0..<n]
          in Inr (epochs_clean,
                  \<lparr>bad_epochs = map (\<lambda>i. i \<in> set dropped_indices) [0..<n],
                   labels = replicate n (replicate (length (e_ch_names eps)) 0),
                   log_ch_names = e_ch_names eps\<rparr>))"

text \<open>Lines 100 to 113, ten epochs or more: AutoReject with the arguments of the source.\<close>

definition autoreject_arguments :: "epochs \<Rightarrow> autoreject_params" where
  "autoreject_arguments eps =
     (let n_epochs = length (e_data eps); cv_folds = min 5 (n_epochs div 2)
      in \<lparr>n_interpolate = [1, 2, 3, 4], cv = cv_folds, random_state = 42, n_jobs = 1\<rparr>)"

definition preprocess_raw_adaptive :: "library \<Rightarrow> epochs \<Rightarrow> error + epochs \<times> reject_log" where
  "preprocess_raw_adaptive lib eps = autoreject_fit_transform lib (autoreject_arguments eps) eps"

text \<open>
  Lines 75 to 128: the choice between the two, and for ten epochs or more a second
  threshold, estimated from the cleaned epochs, with a second \<open>drop_bad\<close>. The log is
  the one of the first pass.
\<close>

definition preprocess_raw_reject :: "library \<Rightarrow> epochs \<Rightarrow> error + epochs \<times> reject_log" where
  "preprocess_raw_reject lib eps =
     (let n_epochs = length (e_data eps) in
      case (if n_epochs < 10 then preprocess_raw_sparse lib eps
            else preprocess_raw_adaptive lib eps) of
        Inl e \<Rightarrow> Inl e
      | Inr (epochs_clean, rlog) \<Rightarrow>
          if 10 \<le> n_epochs then
            (case get_rejection_threshold lib epochs_clean of
               Inl e \<Rightarrow> Inl e
             | Inr thr \<Rightarrow> Inr (drop_bad epochs_clean thr, rlog))
          else Inr (epochs_clean, rlog))"

definition preprocess_raw ::
  "library \<Rightarrow> store \<Rightarrow> nat \<Rightarrow> real \<Rightarrow> bool \<Rightarrow> store \<times> (error + epochs \<times> reject_log)" where
  "preprocess_raw lib st a epoch_duration apply_ica =
     (case preprocess_raw_filter lib st a apply_ica of
        (st', Inl e) \<Rightarrow> (st', Inl e)
      | (st', Inr c) \<Rightarrow>
          (st', case preprocess_raw_epochs (st' ! c) epoch_duration of
                  Inl e \<Rightarrow> Inl e
                | Inr eps \<Rightarrow> preprocess_raw_reject lib eps))"

section \<open>process\_eeg.py\<close>

text \<open>
  Lines 87 to 97 of \<open>process_eeg_recording\<close>. \<open>raw.times[-1]\<close> is the time of the last
  sample, \<open>(n_times - 1) / sfreq\<close>; on a recording without samples the index raises and
  the handler takes \<open>n_times / sfreq\<close>.
\<close>

definition total_duration_sec :: "raw \<Rightarrow> real" where
  "total_duration_sec r =
     (if n_times r = 0 then real (n_times r) / sfreq r
      else real (n_times r - 1) / sfreq r)"

text \<open>The value of \<open>tmax\<close> in line 95.\<close>

definition limit_tmax :: "raw \<Rightarrow> real \<Rightarrow> real" where
  "limit_tmax r s = min s (total_duration_sec r)"

definition limit_seconds :: "raw \<Rightarrow> real option \<Rightarrow> error + raw" where
  "limit_seconds r seconds =
     (case seconds of
        None \<Rightarrow> Inr r
      | Some s \<Rightarrow>
          if s \<le> 0 then Inl (ValueError ''seconds must be greater than 0'')
          else raw_crop r 0 (limit_tmax r s))"

text \<open>
  Lines 87 to 116: the limit on the loaded recording (in place), the two copies kept for
  the plots, the second of them filtered, and the call of \<open>preprocess_raw\<close> with epochs
  of 2.0 seconds and no ICA.
\<close>

definition process_eeg_recording_preprocess ::
  "library \<Rightarrow> store \<Rightarrow> nat \<Rightarrow> real option \<Rightarrow> store \<times> (error + epochs \<times> reject_log)" where
  "process_eeg_recording_preprocess lib st a seconds =
     (case limit_seconds (st ! a) seconds of
        Inl e \<Rightarrow> (st, Inl e)
      | Inr limited \<Rightarrow>
          let st1 = st[a := limited];
              (st2, raw_original) = raw_copy st1 a;
              (st3, raw_filtered) = raw_copy st2 a
          in case raw_filter lib (st3 ! raw_filtered) (1 / 2) 40 of
               Inl e \<Rightarrow> (st3, Inl e)
             | Inr filtered \<Rightarrow> preprocess_raw lib (st3[raw_filtered := filtered]) a 2 False)"

section \<open>An instance of the library parameters\<close>

text \<open>
  The theorems below hold for every \<open>library\<close>. To evaluate the pipeline on concrete
  recordings each parameter has to be chosen; this instance is a simple one: a filter
  that rejects a band edge at or above the Nyquist frequency and otherwise removes the
  mean of the channel, an ICA that changes nothing, and an AutoReject that keeps every
  epoch. The threshold estimator is called without \<open>cv\<close>, so it cross-validates with
  autoreject's default of five folds: like autoreject's, the estimator of the instance
  raises ValueError on fewer than five epochs; on five or more it returns 100 microvolts.
\<close>

definition sample_fir :: "real \<Rightarrow> real \<Rightarrow> real \<Rightarrow> real list \<Rightarrow> error + real list" where
  "sample_fir l_freq h_freq sf xs =
     (if sf \<le> 2 * h_freq then Inl (ValueError ''h_freq must be less than the Nyquist frequency'')
      else Inr (map (\<lambda>x. x - sum_list xs / real (length xs)) xs))"

definition sample_threshold :: "epochs \<Rightarrow> error + real" where
  "sample_threshold eps =
     (if length (e_data eps) < 5
      then Inl (ValueError ''Cannot have number of splits n_splits=5 greater than the number of samples'')
      else Inr (1 / 10000))"

definition sample_library :: library where
  "sample_library =
     \<lparr>fir_filter = sample_fir,
      ica_fit_apply = (\<lambda>n_components seed r. Inr r),
      get_rejection_threshold = sample_threshold,
      autoreject_fit_transform =
        (\<lambda>params eps. Inr (eps, \<lparr>bad_epochs = replicate (length (e_data eps)) False,
                                  labels = replicate (length (e_data eps))
                                             (replicate (length (e_ch_names eps)) 0),
                                  log_ch_names = e_ch_names eps\<rparr>))\<rparr>"

section \<open>Recordings used as examples\<close>

text \<open>
  Recordings of two channels at 256 Hz: one of 1024 samples, that is two epochs of 2.0
  seconds; one of 1537 samples, which gives three epochs; one of 2560 samples, ten
  seconds; and one of three samples. Then epoch sets, in volts.
\<close>

definition recording_4s :: raw where
  "recording_4s =
     \<lparr>ch_names = [''AF7'', ''AF8''], sfreq = 256,
      samples = [map real [0..<1024], replicate 1024 0]\<rparr>"

definition recording_6s :: raw where
  "recording_6s =
     \<lparr>ch_names = [''AF7'', ''AF8''], sfreq = 256,
      samples = [replicate 1537 (1 / 100000), replicate 1537 0]\<rparr>"

definition recording_10s :: raw where
  "recording_10s =
     \<lparr>ch_names = [''AF7'', ''AF8''], sfreq = 256,
      samples = [replicate 2560 (1 / 100000), replicate 2560 0]\<rparr>"

definition short_recording :: raw where
  "short_recording =
     \<lparr>ch_names = [''AF7'', ''AF8''], sfreq = 256, samples = [[1, 2, 3], [4, 4, 4]]\<rparr>"

definition three_epochs :: epochs where
  "three_epochs =
     \<lparr>e_ch_names = [''AF7''], e_sfreq = 256, selection = [0, 1, 2],
      e_data = [[[0, 1 / 100000, 0]], [[0, 1 / 1000, 0]], [[1 / 100000, 0, 0]]]\<rparr>"

definition five_epochs :: epochs where
  "five_epochs =
     \<lparr>e_ch_names = [''AF7''], e_sfreq = 256, selection = [0, 1, 2, 3, 4],
      e_data = [[[0, 1 / 100000, 0]], [[0, 1 / 1000, 0]], [[1 / 100000, 0, 0]],
                [[0, 0, 0]], [[0, 0, 1 / 100000]]]\<rparr>"

definition ten_epochs :: epochs where
  "ten_epochs =
     \<lparr>e_ch_names = [''AF7'', ''AF8''], e_sfreq = 256, selection = [0..<10],
      e_data = replicate 9 [[0, 1 / 100000], [0, 0]] @ [[[0, 1 / 1000], [0, 0]]]\<rparr>"

section \<open>Properties of psd\_analysis.py\<close>

subsection \<open>Auxiliary facts\<close>

lemma zip_as_map_nth:
  "length xs = length ys \<Longrightarrow> zip xs ys = map (\<lambda>j. (xs ! j, ys ! j)) [0..<length ys]"
  by (rule nth_equalityI) simp_all

lemma bool_index_freq_mask:
  assumes "length row = length freqs"
  shows "bool_index row (freq_mask freqs fmin fmax) =
           map (\<lambda>j. row ! j) (in_band_indices freqs fmin fmax)"
proof -
  have "zip row (freq_mask freqs fmin fmax) =
          map (\<lambda>j. (row ! j, fmin \<le> freqs ! j \<and> freqs ! j \<le> fmax)) [0..<length freqs]"
    using assms by (intro nth_equalityI) (simp_all add: freq_mask_def)
  then show ?thesis
    by (simp add: bool_index_def in_band_indices_def filter_map comp_def)
qed

lemma trapz_Cons2: "trapz (a # b # y) dx = dx * (b + a) / 2 + trapz (b # y) dx"
  by (simp add: trapz_def)

lemma trapezoid_rule_Cons2:
  "trapezoid_rule (a # b # y) dx = dx * (a + b) / 2 + trapezoid_rule (b # y) dx"
proof -
  have "[0..<Suc (length y)] = 0 # map Suc [0..<length y]"
    by (simp add: upt_conv_Cons map_Suc_upt del: upt_Suc)
  then show ?thesis
    by (simp add: trapezoid_rule_def comp_def del: upt_Suc)
qed

lemma trapz_is_trapezoid_rule: "trapz y dx = trapezoid_rule y dx"
proof (induction y rule: induct_list012)
  case 1
  show ?case by (simp add: trapz_def trapezoid_rule_def)
next
  case (2 a)
  show ?case by (simp add: trapz_def trapezoid_rule_def)
next
  case (3 a b y)
  then show ?case by (simp add: trapz_Cons2 trapezoid_rule_Cons2 algebra_simps)
qed

lemma band_power_ok:
  assumes "2 \<le> length freqs"
    and "\<forall>ep \<in> set psds. \<forall>row \<in> set ep. length row = length freqs"
  shows "band_power psds freqs fmin fmax =
           Inr (map (map (\<lambda>row. trapz (bool_index row (freq_mask freqs fmin fmax))
                                    (freqs ! 1 - freqs ! 0))) psds)"
  using assms by (auto simp add: band_power_def Let_def freq_mask_def)

lemma band_power_short: "length freqs < 2 \<Longrightarrow> band_power psds freqs fmin fmax = Inl IndexError"
  by (simp add: band_power_def Let_def)

lemma band_loop_short:
  "length freqs < 2 \<Longrightarrow> bands \<noteq> [] \<Longrightarrow> band_loop psds freqs bands acc = Inl IndexError"
  by (cases bands) (auto simp add: band_power_short)


lemma band_loop_ok:
  assumes "2 \<le> length freqs"
    and "\<forall>ep \<in> set psds. \<forall>row \<in> set ep. length row = length freqs"
  shows "band_loop psds freqs bands acc =
           Inr (\<lambda>k. case map_of (rev bands) k of
                  Some (fmin, fmax) \<Rightarrow>
                    Some (map (map (\<lambda>row. trapz (bool_index row (freq_mask freqs fmin fmax))
                                             (freqs ! 1 - freqs ! 0))) psds)
                | None \<Rightarrow> acc k)"
proof (induction bands arbitrary: acc)
  case Nil
  show ?case by simp
next
  case (Cons b bands)
  obtain name fmin fmax where b: "b = (name, (fmin, fmax))"
    by (cases b) auto
  show ?case
    unfolding b
    by (simp add: band_power_ok [OF assms] Cons.IH)
      (auto simp add: map_add_def fun_eq_iff split: option.splits)
qed

lemma compute_band_powers_default_ok:
  assumes "2 \<le> length freqs"
    and "\<forall>ep \<in> set psds. \<forall>row \<in> set ep. length row = length freqs"
    and "(band_name, (fmin, fmax)) \<in> set FREQ_BANDS"
  shows "\<exists>bp. compute_band_powers psds freqs None = Inr bp \<and>
           bp band_name =
             Some (map (map (\<lambda>row. trapz (bool_index row (freq_mask freqs fmin fmax))
                                      (freqs ! 1 - freqs ! 0))) psds)"
proof -
  have "distinct (map fst (rev FREQ_BANDS))"
    by (simp add: FREQ_BANDS_def)
  then have "map_of (rev FREQ_BANDS) band_name = Some (fmin, fmax)"
    using assms(3) by (intro map_of_is_SomeI) simp_all
  then show ?thesis
    by (simp add: compute_band_powers_def band_loop_ok [OF assms(1,2)])
qed

subsection \<open>Band integrator\<close>

text \<open>
  Claim C3, as amended. Let the frequency axis have at least two points and let the last
  axis of the spectrum have the length of the frequency axis. Then for each of the five
  canonical bands (delta [0.5,4], theta [4,8], alpha [8,13], beta [13,30], gamma [30,40])
  \<open>compute_band_powers\<close> returns a table whose entry for epoch \<open>e\<close> and channel \<open>c\<close> is
  the trapezoidal rule, with step \<open>freqs[1] - freqs[0]\<close>, applied to the spectrum at
  the indices of the frequency axis lying in the closed interval of the band; a band
  with no such index has power exactly 0.
\<close>

theorem band_integrator_trapezoid:
  assumes "2 \<le> length freqs"
    and "\<forall>ep \<in> set psds. \<forall>row \<in> set ep. length row = length freqs"
    and "(band_name, (fmin, fmax)) \<in> set FREQ_BANDS"
    and "e < length psds" and "c < length (psds ! e)"
  shows "\<exists>bp tbl. compute_band_powers psds freqs None = Inr bp \<and> bp band_name = Some tbl \<and>
           tbl ! e ! c =
             trapezoid_rule (map (\<lambda>j. psds ! e ! c ! j) (in_band_indices freqs fmin fmax))
               (freqs ! 1 - freqs ! 0) \<and>
           (in_band_indices freqs fmin fmax = [] \<longrightarrow> tbl ! e ! c = 0)"
proof -
  let ?tbl = "map (map (\<lambda>row. trapz (bool_index row (freq_mask freqs fmin fmax))
                                  (freqs ! 1 - freqs ! 0))) psds"
  obtain bp where bp: "compute_band_powers psds freqs None = Inr bp" "bp band_name = Some ?tbl"
    using compute_band_powers_default_ok [OF assms(1,2,3)] by blast
  have row: "length (psds ! e ! c) = length freqs"
    using assms(2,4,5) by (meson nth_mem)
  have entry: "?tbl ! e ! c =
      trapezoid_rule (map (\<lambda>j. psds ! e ! c ! j) (in_band_indices freqs fmin fmax))
        (freqs ! 1 - freqs ! 0)"
    using assms(4,5) by (simp add: bool_index_freq_mask [OF row] trapz_is_trapezoid_rule)
  have zero: "in_band_indices freqs fmin fmax = [] \<longrightarrow> ?tbl ! e ! c = 0"
    using entry by (simp add: trapezoid_rule_def)
  show ?thesis using bp entry zero by blast
qed

text \<open>
  The theorem at a spectrum of one epoch, one channel and four frequencies 6, 9, 12, 15 Hz:
  the alpha band holds the bins at 9 and 12 Hz, and its power is \<open>3 * (5 + 9) / 2 = 21\<close>.
\<close>

theorem band_integrator_trapezoid_witness:
  "\<exists>bp tbl. compute_band_powers [[[3, 5, 9, 2]]] [6, 9, 12, 15] None = Inr bp \<and>
      bp ''alpha'' = Some tbl \<and> tbl ! 0 ! 0 = 21 \<and>
      in_band_indices [6, 9, 12, 15] 8 13 = [1, 2]"
proof -
  have h3: "(''alpha'', (8, 13)) \<in> set FREQ_BANDS" by (simp add: FREQ_BANDS_def)
  have idx: "in_band_indices [6, 9, 12, 15] 8 13 = [1, 2]"
    by (simp add: in_band_indices_def upt_rec_numeral)
  from band_integrator_trapezoid [of "[6, 9, 12, 15]" "[[[3, 5, 9, 2]]]" "''alpha''" 8 13 0 0, OF _ _ h3]
  show ?thesis
    by (simp add: idx trapezoid_rule_def)
qed

text \<open>
  Claim C3 as stated fails on a frequency axis of one point: at the axis \<open>[100]\<close> the
  delta band covers no bin, and the call raises IndexError instead of returning 0.
\<close>

theorem zero_bins_counterexample:
  "in_band_indices [100] (1 / 2) 4 = [] \<and>
   compute_band_powers [[[1]]] [100] None = Inl IndexError"
  by (simp add: in_band_indices_def compute_band_powers_def FREQ_BANDS_def band_power_def)

text \<open>
  Claim C10, as amended. On a frequency axis of fewer than two points every call that
  has a band to integrate (the default five bands, or any non-empty dict of bands) raises
  IndexError, because the step is \<open>freqs[1] - freqs[0]\<close>; the trapezoidal sum itself is
  0 on a band whose mask selects no bin.
\<close>

theorem band_integrator_needs_two_points:
  "(length freqs < 2 \<and> bands \<noteq> Some [] \<longrightarrow>
      compute_band_powers psds freqs bands = Inl IndexError) \<and>
   ((\<forall>b \<in> set sel. \<not> b) \<longrightarrow> trapz (bool_index row sel) dx = 0)"
proof
  show "length freqs < 2 \<and> bands \<noteq> Some [] \<longrightarrow>
      compute_band_powers psds freqs bands = Inl IndexError"
  proof
    assume a: "length freqs < 2 \<and> bands \<noteq> Some []"
    then have "(case bands of None \<Rightarrow> FREQ_BANDS | Some b \<Rightarrow> b) \<noteq> []"
      by (cases bands) (simp_all add: FREQ_BANDS_def)
    with a show "compute_band_powers psds freqs bands = Inl IndexError"
      by (simp add: compute_band_powers_def band_loop_short)
  qed
next
  have "(\<forall>b \<in> set sel. \<not> b) \<Longrightarrow> filter snd (zip row sel) = []"
    by (auto simp add: filter_empty_conv dest: set_zip_rightD)
  then show "(\<forall>b \<in> set sel. \<not> b) \<longrightarrow> trapz (bool_index row sel) dx = 0"
    by (simp add: bool_index_def trapz_def)
qed

theorem band_integrator_needs_two_points_witness:
  "compute_band_powers [[[7]]] [10] None = Inl IndexError \<and>
   trapz (bool_index [7] [False]) 3 = 0"
  using band_integrator_needs_two_points [of "[10]" None "[[[7]]]" "[False]" "[7]" 3]
  by simp

text \<open>
  Claim C10 as stated speaks of every call. With an empty dict of bands the loop body,
  and with it \<open>freqs[1]\<close>, is never reached: on an axis of one point the call returns
  the empty table.
\<close>

theorem empty_bands_counterexample:
  "length [10 :: real] < 2 \<and> compute_band_powers [[[7]]] [10] (Some []) = Inr Map.empty"
  by (simp add: compute_band_powers_def)

subsection \<open>Ratio calculator\<close>

lemma shape2_nth:
  "shape2 a = shape2 b \<Longrightarrow> length a = length b \<and> (\<forall>i < length b. length (a ! i) = length (b ! i))"
  unfolding shape2_def by (metis length_map nth_map)

lemma size2_pos: "e < length a \<Longrightarrow> c < length (a ! e) \<Longrightarrow> size2 a \<noteq> 0"
  unfolding size2_def by (auto intro!: bexI [of _ "a ! e"])

lemma broadcast_nth_id: "i < length xs \<Longrightarrow> broadcast_nth xs i = xs ! i"
  by (auto simp add: broadcast_nth_def)

lemma broadcast_map2_equal_length:
  assumes "length xs = length ys"
  shows "length (broadcast_map2 f xs ys) = length ys"
    and "i < length ys \<Longrightarrow> broadcast_map2 f xs ys ! i = f (xs ! i) (ys ! i)"
  using assms by (simp_all add: broadcast_map2_def broadcast_len_def broadcast_nth_id)

lemma broadcastable2_same_shape:
  assumes "shape2 a = shape2 b"
  shows "broadcastable2 a b"
proof -
  have len: "length a = length b" and rows: "\<forall>i < length b. length (a ! i) = length (b ! i)"
    using shape2_nth [OF assms] by simp_all
  have "list_all (\<lambda>(r, s). broadcastable (length r) (length s)) (broadcast_map2 Pair a b)"
    unfolding list_all_length
    using rows by (simp add: broadcast_map2_equal_length [OF len] broadcastable_def)
  then show ?thesis
    by (simp add: broadcastable2_def broadcastable_def len)
qed

lemma div_shifted_nth:
  assumes "shape2 a = shape2 b" and "e < length b" and "c < length (b ! e)"
  shows "\<exists>d. div_shifted a b eps = Inr d \<and> size2 d \<noteq> 0 \<and>
           d ! e ! c = np_div (a ! e ! c) (b ! e ! c + eps)"
proof -
  let ?d = "broadcast_map2 (broadcast_map2 (\<lambda>x y. np_div x (y + eps))) a b"
  have len: "length a = length b" and row: "length (a ! e) = length (b ! e)"
    using shape2_nth [OF assms(1)] assms(2) by simp_all
  have run: "div_shifted a b eps = Inr ?d"
    by (simp add: div_shifted_def broadcastable2_same_shape [OF assms(1)])
  have de: "?d ! e = broadcast_map2 (\<lambda>x y. np_div x (y + eps)) (a ! e) (b ! e)"
    using assms(2) by (simp add: broadcast_map2_equal_length(2) [OF len])
  have dec: "?d ! e ! c = np_div (a ! e ! c) (b ! e ! c + eps)"
    using assms(3) by (simp add: de broadcast_map2_equal_length(2) [OF row])
  have "e < length ?d" and "c < length (?d ! e)"
    using assms(2,3) by (simp_all add: de broadcast_map2_equal_length(1) [OF len]
        broadcast_map2_equal_length(1) [OF row])
  then have "size2 ?d \<noteq> 0"
    by (rule size2_pos)
  then show ?thesis
    using run dec by blast
qed

lemma np_div_in_range:
  assumes "y \<noteq> 0" and "\<bar>x / y\<bar> < float64_overflow"
  shows "np_div x y = Finite (x / y)"
proof -
  have "x / y < float64_overflow" and "- float64_overflow < x / y"
    using assms(2) by arith+
  then show ?thesis
    using assms(1) by (simp add: np_div_def)
qed

text \<open>
  Claim C2, as amended. For band tables of one shape and every epoch \<open>e\<close> and channel
  \<open>c\<close> of them, \<open>compute_ratios\<close> returns tables DAR and TAR with
  \<open>DAR[e, c] = delta[e, c] / (alpha[e, c] + 1e-10)\<close> and
  \<open>TAR[e, c] = theta[e, c] / (alpha[e, c] + 1e-10)\<close>, the epsilon being added in every
  case; where \<open>alpha[e, c] = 0\<close> they equal \<open>delta[e, c] / 1e-10\<close> and
  \<open>theta[e, c] / 1e-10\<close> and are finite, provided these quotients are within the range
  of float64.
\<close>

theorem ratio_calculator_formula:
  assumes "band_powers ''delta'' = Some delta"
    and "band_powers ''theta'' = Some theta"
    and "band_powers ''alpha'' = Some alpha"
    and "shape2 delta = shape2 alpha" and "shape2 theta = shape2 alpha"
    and "e < length alpha" and "c < length (alpha ! e)"
  shows "\<exists>ratios dar tar. compute_ratios band_powers = Inr ratios \<and>
           ratios ''DAR'' = Some dar \<and> ratios ''TAR'' = Some tar \<and>
           dar ! e ! c = np_div (delta ! e ! c) (alpha ! e ! c + 1 / 10 ^ 10) \<and>
           tar ! e ! c = np_div (theta ! e ! c) (alpha ! e ! c + 1 / 10 ^ 10) \<and>
           (alpha ! e ! c = 0 \<and> \<bar>delta ! e ! c / (1 / 10 ^ 10)\<bar> < float64_overflow \<longrightarrow>
              dar ! e ! c = Finite (delta ! e ! c / (1 / 10 ^ 10))) \<and>
           (alpha ! e ! c = 0 \<and> \<bar>theta ! e ! c / (1 / 10 ^ 10)\<bar> < float64_overflow \<longrightarrow>
              tar ! e ! c = Finite (theta ! e ! c / (1 / 10 ^ 10)))"
proof -
  obtain dar where dar: "div_shifted delta alpha epsilon = Inr dar" "size2 dar \<noteq> 0"
    "dar ! e ! c = np_div (delta ! e ! c) (alpha ! e ! c + epsilon)"
    using div_shifted_nth [OF assms(4,6,7)] by blast
  obtain tar where tar: "div_shifted theta alpha epsilon = Inr tar" "size2 tar \<noteq> 0"
    "tar ! e ! c = np_div (theta ! e ! c) (alpha ! e ! c + epsilon)"
    using div_shifted_nth [OF assms(5,6,7)] by blast
  have run: "compute_ratios band_powers = Inr (Map.empty(''DAR'' \<mapsto> dar, ''TAR'' \<mapsto> tar))"
    using assms(1-3) dar(1,2) tar(1,2) by (simp add: compute_ratios_def lookup_def)
  have d: "dar ! e ! c = np_div (delta ! e ! c) (alpha ! e ! c + 1 / 10 ^ 10)"
    and t: "tar ! e ! c = np_div (theta ! e ! c) (alpha ! e ! c + 1 / 10 ^ 10)"
    using dar(3) tar(3) by (simp_all add: epsilon_def)
  have nz: "(1 / 10 ^ 10 :: real) \<noteq> 0"
    by simp
  have zd: "alpha ! e ! c = 0 \<and> \<bar>delta ! e ! c / (1 / 10 ^ 10)\<bar> < float64_overflow \<longrightarrow>
              dar ! e ! c = Finite (delta ! e ! c / (1 / 10 ^ 10))"
    using np_div_in_range [OF nz, of "delta ! e ! c"] by (simp add: d)
  have zt: "alpha ! e ! c = 0 \<and> \<bar>theta ! e ! c / (1 / 10 ^ 10)\<bar> < float64_overflow \<longrightarrow>
              tar ! e ! c = Finite (theta ! e ! c / (1 / 10 ^ 10))"
    using np_div_in_range [OF nz, of "theta ! e ! c"] by (simp add: t)
  show ?thesis
    using run d t zd zt by simp
qed

theorem ratio_calculator_formula_witness:
  "\<exists>ratios dar tar.
      compute_ratios (Map.empty(''delta'' \<mapsto> [[3, 1]], ''theta'' \<mapsto> [[2, 5]], ''alpha'' \<mapsto> [[0, 4]])) = Inr ratios \<and>
      ratios ''DAR'' = Some dar \<and> ratios ''TAR'' = Some tar \<and>
      dar ! 0 ! 0 = Finite 30000000000 \<and> tar ! 0 ! 0 = Finite 20000000000"
proof -
  have r: "\<bar>3 / (1 / 10 ^ 10)\<bar> < float64_overflow" "\<bar>2 / (1 / 10 ^ 10)\<bar> < float64_overflow"
    by (simp_all add: float64_overflow_def)
  from ratio_calculator_formula [of "Map.empty(''delta'' \<mapsto> [[3, 1]], ''theta'' \<mapsto> [[2, 5]], ''alpha'' \<mapsto> [[0, 4]])"
      "[[3, 1]]" "[[2, 5]]" "[[0, 4]]" 0 0] r
  show ?thesis
    by (auto simp add: shape2_def)
qed

text \<open>
  Claim C2 as stated speaks of every band-power table and of finite ratios whenever
  alpha is 0. On band tables without any element (no epoch survived) the function does
  not return: the minimum it prints is undefined and numpy raises ValueError. And with
  delta at \<open>1e300\<close> and alpha at 0 the quotient \<open>1e310\<close> is beyond float64: DAR is
  infinite.
\<close>

theorem ratio_calculator_counterexample:
  "compute_ratios (Map.empty(''delta'' \<mapsto> [], ''theta'' \<mapsto> [], ''alpha'' \<mapsto> [])) =
     Inl (ValueError ''zero-size array to reduction operation minimum which has no identity'') \<and>
   compute_ratios (Map.empty(''delta'' \<mapsto> [[10 ^ 300]], ''theta'' \<mapsto> [[1]], ''alpha'' \<mapsto> [[0]])) =
     Inr (Map.empty(''DAR'' \<mapsto> [[PosInf]], ''TAR'' \<mapsto> [[Finite (10 ^ 10)]]))"
proof
  show "compute_ratios (Map.empty(''delta'' \<mapsto> [], ''theta'' \<mapsto> [], ''alpha'' \<mapsto> [])) =
     Inl (ValueError ''zero-size array to reduction operation minimum which has no identity'')"
    by (simp add: compute_ratios_def lookup_def div_shifted_def broadcastable2_def
        broadcastable_def broadcast_map2_def broadcast_len_def size2_def)
next
  show "compute_ratios (Map.empty(''delta'' \<mapsto> [[10 ^ 300]], ''theta'' \<mapsto> [[1]], ''alpha'' \<mapsto> [[0]])) =
     Inr (Map.empty(''DAR'' \<mapsto> [[PosInf]], ''TAR'' \<mapsto> [[Finite (10 ^ 10)]]))"
    by (simp add: compute_ratios_def lookup_def div_shifted_def broadcastable2_def
        broadcastable_def broadcast_map2_def broadcast_len_def broadcast_nth_def size2_def
        np_div_def epsilon_def float64_overflow_def)
qed

section \<open>Properties of preprocessing.py\<close>

subsection \<open>Segmentation\<close>

lemma py_round_of_nat: "py_round (real n) = int n"
  by (simp add: py_round_def)

lemma filter_less_upt: "filter (\<lambda>i. i < m) [0..<k] = [0..<min m k]"
  by (induction k) auto

lemma event_count:
  assumes "0 < n" and "n \<le> N"
  shows "nat \<lceil>of_int (int N - int n + 1) / real n\<rceil> = N div n"
proof -
  let ?q = "N div n"
  have lo: "?q * n \<le> N" by simp
  have hi: "N < (?q + 1) * n"
    using assms(1) by (metis Suc_eq_plus1 dividend_less_div_times mult.commute mult_Suc_right add.commute)
  have eq: "(of_int (int N - int n + 1) :: real) = real N - real n + 1"
    by simp
  have "real ?q * real n \<le> real N"
    using lo by (metis of_nat_le_iff of_nat_mult)
  moreover have "real N + 1 \<le> (real ?q + 1) * real n"
    using hi by (metis Suc_eq_plus1 Suc_leI of_nat_Suc of_nat_le_iff of_nat_mult of_nat_add of_nat_1)
  ultimately have "real_of_int (int ?q) - 1 < (real N - real n + 1) / real n \<and>
         (real N - real n + 1) / real n \<le> real_of_int (int ?q)"
    using assms(1) by (simp add: field_simps)
  then have "\<lceil>(real N - real n + 1) / real n\<rceil> = int ?q"
    by (simp only: ceiling_eq_iff)
  then show ?thesis by (simp add: eq)
qed

lemma event_count_short:
  assumes "0 < n" and "N < n"
  shows "nat \<lceil>of_int (int N - int n + 1) / real n\<rceil> = 0"
proof -
  have "(of_int (int N - int n + 1) :: real) \<le> 0"
    using assms(2) by simp
  then have "of_int (int N - int n + 1) / real n \<le> 0"
    using assms(1) by (simp add: divide_nonpos_pos)
  then have "\<lceil>of_int (int N - int n + 1) / real n\<rceil> \<le> 0"
    by (simp add: ceiling_le_zero)
  then show ?thesis by simp
qed

lemma events_integer_step:
  assumes "sfreq r * d = real n" and "0 < n" and "0 < d"
  shows "make_fixed_length_events r d =
           (if n_times r < n
            then Inl (ValueError ''No events produced, check the values of start, stop, and duration'')
            else Inr (map (\<lambda>k. k * n) [0..<n_times r div n]))"
proof (cases "n_times r < n")
  case True
  show ?thesis
    unfolding make_fixed_length_events_def Let_def assms(1) py_round_of_nat
      event_count_short [OF assms(2) True]
    using assms(3) True by simp
next
  case False
  then have le: "n \<le> n_times r" by simp
  have fl: "\<And>k. nat \<lfloor>real k * real n\<rfloor> = k * n"
    by (metis floor_of_nat nat_int of_nat_mult)
  have pos: "0 < n_times r div n"
    using le assms(2) by (simp add: div_greater_zero_iff)
  show ?thesis
    unfolding make_fixed_length_events_def Let_def assms(1) py_round_of_nat
      event_count [OF assms(2) le] fl
    using assms(3) False pos by simp
qed

lemma window_fits:
  assumes "0 < n"
  shows "Suc (i * n + n) \<le> N \<longleftrightarrow> i < (N - 1) div n"
proof -
  have "Suc (i * n + n) \<le> N \<longleftrightarrow> Suc i * n \<le> N - 1"
    using assms by (cases N) (simp_all add: algebra_simps)
  also have "\<dots> \<longleftrightarrow> Suc i \<le> (N - 1) div n"
    using assms by (simp add: less_eq_div_iff_mult_less_eq)
  finally show ?thesis by (simp add: Suc_le_eq)
qed

lemma py_round_0: "py_round 0 = 0"
  by (simp add: py_round_def)

lemma epochs_integer_step:
  assumes "sfreq r * d = real n" and "0 < n" and "0 < d"
  shows "mne_Epochs r (map (\<lambda>k. k * n) [0..<n_times r div n]) 0 d =
           Inr \<lparr>e_ch_names = ch_names r, e_sfreq = sfreq r,
                selection = [0..<(n_times r - 1) div n],
                e_data = map (\<lambda>i. map (\<lambda>ch. take (n + 1) (drop (i * n) ch)) (samples r))
                           [0..<(n_times r - 1) div n]\<rparr>"
proof -
  let ?m = "n_times r div n"
  let ?k = "(n_times r - 1) div n"
  let ?ev = "map (\<lambda>k. k * n) [0..<?m]"
  have dn: "d * sfreq r = real n"
    using assms(1) by (simp add: mult.commute)
  have dist: "distinct ?ev"
    using assms(2) by (simp add: distinct_map inj_on_def)
  have len: "nat (int n - 0 + 1) = n + 1"
    by simp
  have km: "?k \<le> ?m"
    by (simp add: div_le_mono)
  have kept: "filter (\<lambda>i. 0 \<le> int (?ev ! i) + 0 \<and> nat (int (?ev ! i) + 0) + (n + 1) \<le> n_times r)
                [0..<length ?ev] = [0..<?k]"
  proof -
    have "filter (\<lambda>i. 0 \<le> int (?ev ! i) + 0 \<and> nat (int (?ev ! i) + 0) + (n + 1) \<le> n_times r)
            [0..<length ?ev] = filter (\<lambda>i. i < ?k) [0..<?m]"
      by (rule filter_cong) (auto simp add: window_fits [OF assms(2)] nat_mult_distrib)
    also have "\<dots> = [0..<min ?k ?m]"
      by (rule filter_less_upt)
    finally show ?thesis using km by (simp add: min_def)
  qed
  have dat: "map (\<lambda>i. map (\<lambda>ch. take (n + 1) (drop (nat (int (?ev ! i) + 0)) ch)) (samples r)) [0..<?k]
               = map (\<lambda>i. map (\<lambda>ch. take (n + 1) (drop (i * n) ch)) (samples r)) [0..<?k]"
    using km by (intro map_cong) (simp_all add: nat_mult_distrib)
  show ?thesis
    unfolding mne_Epochs_def Let_def mult_zero_left py_round_0 dn py_round_of_nat len kept dat
    using assms(3) dist by simp
qed

text \<open>
  Segmentation when \<open>sfreq * epoch_duration\<close> is a whole number \<open>n\<close> of samples (256 Hz
  and 2.0 seconds give 512). A recording of fewer than \<open>n\<close> samples raises ValueError.
  Otherwise the epochs start at the samples \<open>0, n, 2n, ...\<close>, each has \<open>n + 1\<close> samples,
  its last sample being the first of the next epoch, and there are
  \<open>(n_times - 1) div n\<close> of them: the window that would end one sample after the
  recording is dropped.
\<close>

lemma segmentation_integer_step:
  assumes "sfreq r * d = real n" and "0 < n" and "0 < d"
  shows "preprocess_raw_epochs r d =
           (if n_times r < n
            then Inl (ValueError ''No events produced, check the values of start, stop, and duration'')
            else Inr \<lparr>e_ch_names = ch_names r, e_sfreq = sfreq r,
                selection = [0..<(n_times r - 1) div n],
                e_data = map (\<lambda>i. map (\<lambda>ch. take (n + 1) (drop (i * n) ch)) (samples r))
                           [0..<(n_times r - 1) div n]\<rparr>)"
  by (simp add: preprocess_raw_epochs_def events_integer_step [OF assms] epochs_integer_step [OF assms])

lemma filter_antitone_upt:
  assumes "\<And>i j. i \<le> j \<Longrightarrow> j < m \<Longrightarrow> P j \<Longrightarrow> P i"
  shows "filter P [0..<m] = [0..<length (filter P [0..<m])]"
  using assms
proof (induction m)
  case 0
  show ?case by simp
next
  case (Suc m)
  have IH: "filter P [0..<m] = [0..<length (filter P [0..<m])]"
    using Suc.prems by (intro Suc.IH) auto
  show ?case
  proof (cases "P m")
    case True
    then have "\<forall>i \<in> set [0..<m]. P i"
      using Suc.prems [of _ m] by auto
    then have "filter P [0..<m] = [0..<m]"
      by (simp only: filter_True)
    then show ?thesis using True by simp
  next
    case False
    then show ?thesis using IH by simp
  qed
qed

text \<open>
  The epochs that \<open>preprocess_raw\<close> builds hold the events \<open>0, 1, ...\<close> without a gap:
  only windows at the end of the recording are dropped.
\<close>

lemma fresh_epochs_selection:
  assumes "preprocess_raw_epochs r d = Inr eps" and "0 < sfreq r"
  shows "selection eps = [0..<length (e_data eps)]"
proof -
  obtain events where ev: "make_fixed_length_events r d = Inr events"
    and ep: "mne_Epochs r events 0 d = Inr eps"
    using assms(1) by (auto simp add: preprocess_raw_epochs_def split: sum.splits)
  have d: "0 < d"
    using ev by (auto simp add: make_fixed_length_events_def split: if_splits)
  let ?step = "sfreq r * d"
  have step: "0 \<le> ?step"
    using assms(2) d by simp
  obtain m where events: "events = map (\<lambda>k. nat \<lfloor>real k * ?step\<rfloor>) [0..<m]"
    using ev d by (auto simp add: make_fixed_length_events_def Let_def split: if_splits)
  let ?len = "nat (py_round (d * sfreq r) - py_round (0 * sfreq r) + 1)"
  let ?P = "\<lambda>i. 0 \<le> int (events ! i) + py_round (0 * sfreq r) \<and>
                nat (int (events ! i) + py_round (0 * sfreq r)) + ?len \<le> n_times r"
  have lenm: "length events = m"
    by (simp add: events)
  have mono: "events ! i \<le> events ! j" if "i \<le> j" "j < m" for i j
  proof -
    have "real i * ?step \<le> real j * ?step"
      using that(1) step by (simp add: mult_right_mono)
    then have "nat \<lfloor>real i * ?step\<rfloor> \<le> nat \<lfloor>real j * ?step\<rfloor>"
      by (intro nat_mono floor_mono)
    then show ?thesis using that by (simp add: events)
  qed
  have anti: "?P i" if "i \<le> j" "j < length events" "?P j" for i j
  proof -
    have "events ! i \<le> events ! j"
      using that(1,2) mono lenm by simp
    then show ?thesis
      using that(3) by (simp add: py_round_0)
  qed
  have "eps = \<lparr>e_ch_names = ch_names r, e_sfreq = sfreq r,
               selection = filter ?P [0..<length events],
               e_data = map (\<lambda>i. map (\<lambda>ch. take ?len
                                              (drop (nat (int (events ! i) + py_round (0 * sfreq r))) ch))
                                      (samples r)) (filter ?P [0..<length events])\<rparr>"
    using ep unfolding mne_Epochs_def Let_def
    by (cases "d < 0"; cases "distinct events")
      (simp_all only: if_True if_False not_True_eq_False not_False_eq_True
        sum.inject sum.distinct)
  then have sel: "selection eps = filter ?P [0..<length events]"
    and dat: "length (e_data eps) = length (filter ?P [0..<length events])"
    by simp_all
  show ?thesis
    unfolding sel dat using anti by (rule filter_antitone_upt)
qed

text \<open>
  Claim C1 says that segmentation yields \<open>floor(total_samples / n_per_epoch)\<close> epochs of
  exactly \<open>n_per_epoch\<close> samples that do not overlap. On the recording of 1024 samples
  at 256 Hz with epochs of 2.0 seconds (\<open>n_per_epoch = 512\<close>, so two epochs of 512
  samples by the claim) the code returns one epoch of 513 samples: the window of an
  event includes both \<open>tmin\<close> and \<open>tmax\<close>, and the second window, which would need the
  sample 1024, is dropped.
\<close>

theorem segmentation_drops_last_epoch:
  "preprocess_raw_epochs recording_4s 2 =
     Inr \<lparr>e_ch_names = [''AF7'', ''AF8''], e_sfreq = 256, selection = [0],
          e_data = [[map real [0..<513], replicate 513 0]]\<rparr>"
proof -
  have n: "n_times recording_4s = 1024"
    by (simp add: n_times_def recording_4s_def)
  have s: "sfreq recording_4s * 2 = real 512"
    by (simp add: recording_4s_def)
  have "preprocess_raw_epochs recording_4s 2 =
      Inr \<lparr>e_ch_names = ch_names recording_4s, e_sfreq = sfreq recording_4s,
           selection = [0..<1],
           e_data = map (\<lambda>i. map (\<lambda>ch. take (512 + 1) (drop (i * 512) ch)) (samples recording_4s))
                      [0..<1]\<rparr>"
    using segmentation_integer_step [OF s] by (simp add: n)
  then show ?thesis
    by (simp add: recording_4s_def take_map)
qed

subsection \<open>Artifact rejection\<close>

lemma zip_upt_nth: "zip [0..<length xs] xs = map (\<lambda>i. (i, xs ! i)) [0..<length xs]"
  by (rule nth_equalityI) simp_all

lemma drop_bad_data: "e_data (drop_bad eps thr) = filter (\<lambda>ep. \<not> exceeds thr ep) (e_data eps)"
  by (simp add: drop_bad_def)

lemma drop_bad_selection:
  assumes "selection eps = [0..<length (e_data eps)]"
  shows "selection (drop_bad eps thr) =
           filter (\<lambda>i. \<not> exceeds thr (e_data eps ! i)) [0..<length (e_data eps)]"
  by (simp add: drop_bad_def assms zip_upt_nth filter_map comp_def)

lemma filter_as_indices:
  "filter P xs = map (\<lambda>i. xs ! i) (filter (\<lambda>i. P (xs ! i)) [0..<length xs])"
proof -
  have "filter P (map (\<lambda>i. xs ! i) [0..<length xs]) =
          map (\<lambda>i. xs ! i) (filter (\<lambda>i. P (xs ! i)) [0..<length xs])"
    by (simp add: filter_map comp_def)
  then show ?thesis by (simp add: map_nth)
qed

lemma sparse_log_count:
  fixes P :: "nat \<Rightarrow> bool"
  shows "length (filter (\<lambda>i. \<not> P i) [0..<n]) + sum_bool (map P [0..<n]) = n"
proof -
  have "sum_bool (map P [0..<n]) = length (filter P [0..<n])"
    by (simp add: sum_bool_def filter_map comp_def)
  then show ?thesis
    using sum_length_filter_compl [of P "[0..<n]"] by simp
qed

lemma preprocess_raw_sparse_ok:
  assumes "selection eps = [0..<length (e_data eps)]"
    and "get_rejection_threshold lib eps = Inr thr"
  shows "preprocess_raw_sparse lib eps =
           Inr (drop_bad eps thr,
                \<lparr>bad_epochs = map (\<lambda>i. exceeds thr (e_data eps ! i)) [0..<length (e_data eps)],
                 labels = replicate (length (e_data eps)) (replicate (length (e_ch_names eps)) 0),
                 log_ch_names = e_ch_names eps\<rparr>)"
proof -
  have "map (\<lambda>i. i \<in> set (filter (\<lambda>i. i \<notin> set (selection (drop_bad eps thr))) [0..<length (e_data eps)]))
          [0..<length (e_data eps)] =
        map (\<lambda>i. exceeds thr (e_data eps ! i)) [0..<length (e_data eps)]"
    by (rule map_cong) (auto simp add: drop_bad_selection [OF assms(1)])
  then show ?thesis
    by (simp add: preprocess_raw_sparse_def assms(2) Let_def)
qed

text \<open>
  The sparse pass where the threshold estimator returns. Let an epoch set have fewer than
  ten epochs and hold the events \<open>0, 1, ...\<close> (as every set built by \<open>preprocess_raw\<close>
  does), and let \<open>thr\<close> be the threshold estimated from all of its epochs. Then the
  rejector keeps exactly the epochs in which no channel has a peak-to-peak amplitude
  above \<open>thr\<close>, unchanged and in order; the log marks exactly the other epochs as bad,
  all its labels are 0, and \<open>len(clean_epochs) + log.bad_epochs.sum() == len(epochs)\<close>.
\<close>

lemma sparse_policy:
  assumes "length (e_data eps) < 10"
    and "selection eps = [0..<length (e_data eps)]"
    and "get_rejection_threshold lib eps = Inr thr"
  shows "\<exists>clean rlog. preprocess_raw_reject lib eps = Inr (clean, rlog) \<and>
           e_data clean = filter (\<lambda>ep. \<not> exceeds thr ep) (e_data eps) \<and>
           bad_epochs rlog = map (\<lambda>i. exceeds thr (e_data eps ! i)) [0..<length (e_data eps)] \<and>
           labels rlog = replicate (length (e_data eps)) (replicate (length (e_ch_names eps)) 0) \<and>
           length (e_data clean) + sum_bool (bad_epochs rlog) = length (e_data eps)"
proof -
  let ?n = "length (e_data eps)"
  let ?P = "\<lambda>i. exceeds thr (e_data eps ! i)"
  let ?rlog = "\<lparr>bad_epochs = map ?P [0..<?n],
                labels = replicate ?n (replicate (length (e_ch_names eps)) 0),
                log_ch_names = e_ch_names eps\<rparr>"
  have run: "preprocess_raw_reject lib eps = Inr (drop_bad eps thr, ?rlog)"
    using assms(1) by (simp add: preprocess_raw_reject_def preprocess_raw_sparse_ok [OF assms(2,3)] Let_def)
  have "length (e_data (drop_bad eps thr)) = length (filter (\<lambda>i. \<not> ?P i) [0..<?n])"
    by (simp add: drop_bad_data filter_as_indices [of "\<lambda>ep. \<not> exceeds thr ep" "e_data eps"])
  then have count: "length (e_data (drop_bad eps thr)) + sum_bool (bad_epochs ?rlog) = ?n"
    by (simp add: sparse_log_count)
  show ?thesis
    using run count by (simp add: drop_bad_data)
qed


lemma sparse_policy_five_epochs:
  "\<exists>clean rlog. preprocess_raw_reject sample_library five_epochs = Inr (clean, rlog) \<and>
      e_data clean = [[[0, 1 / 100000, 0]], [[1 / 100000, 0, 0]], [[0, 0, 0]], [[0, 0, 1 / 100000]]] \<and>
      bad_epochs rlog = [False, True, False, False, False] \<and>
      labels rlog = [[0], [0], [0], [0], [0]] \<and>
      length (e_data clean) + sum_bool (bad_epochs rlog) = 5"
proof -
  have h1: "length (e_data five_epochs) < 10"
    by (simp add: five_epochs_def)
  have h2: "selection five_epochs = [0..<length (e_data five_epochs)]"
    by (simp add: five_epochs_def upt_rec_numeral)
  have h3: "get_rejection_threshold sample_library five_epochs = Inr (1 / 10000)"
    by (simp add: sample_library_def sample_threshold_def five_epochs_def)
  from sparse_policy [OF h1 h2 h3] show ?thesis
    by (auto simp add: five_epochs_def exceeds_def ptp_def upt_rec_numeral eval_nat_numeral)
qed

lemma estimator_failure:
  assumes "length (e_data eps) < 10" and "get_rejection_threshold lib eps = Inl err"
  shows "preprocess_raw_reject lib eps = Inl err"
  using assms by (simp add: preprocess_raw_reject_def preprocess_raw_sparse_def)

text \<open>
  Claim C5. With ten epochs or more, after AutoReject has returned the epochs \<open>clean1\<close>,
  a threshold is estimated from \<open>clean1\<close> alone and every epoch of \<open>clean1\<close> with a
  channel above it is dropped: the result keeps exactly the other epochs, none of which
  exceeds the threshold, so the number of epochs does not grow from the first pass to
  the second. With fewer than ten epochs the result is that of the single sparse pass.
\<close>

theorem post_pass:
  "(10 \<le> length (e_data eps) \<and>
    autoreject_fit_transform lib (autoreject_arguments eps) eps = Inr (clean1, rlog) \<and>
    get_rejection_threshold lib clean1 = Inr thr \<longrightarrow>
      (\<exists>final. preprocess_raw_reject lib eps = Inr (final, rlog) \<and>
         e_data final = filter (\<lambda>ep. \<not> exceeds thr ep) (e_data clean1) \<and>
         (\<forall>ep \<in> set (e_data final). \<not> exceeds thr ep) \<and>
         length (e_data final) \<le> length (e_data clean1))) \<and>
   (length (e_data eps) < 10 \<longrightarrow>
      preprocess_raw_reject lib eps = preprocess_raw_sparse lib eps)"
proof (intro conjI impI)
  assume a: "10 \<le> length (e_data eps) \<and>
    autoreject_fit_transform lib (autoreject_arguments eps) eps = Inr (clean1, rlog) \<and>
    get_rejection_threshold lib clean1 = Inr thr"
  then have "preprocess_raw_reject lib eps = Inr (drop_bad clean1 thr, rlog)"
    by (simp add: preprocess_raw_reject_def preprocess_raw_adaptive_def Let_def)
  then show "\<exists>final. preprocess_raw_reject lib eps = Inr (final, rlog) \<and>
         e_data final = filter (\<lambda>ep. \<not> exceeds thr ep) (e_data clean1) \<and>
         (\<forall>ep \<in> set (e_data final). \<not> exceeds thr ep) \<and>
         length (e_data final) \<le> length (e_data clean1)"
    by (simp add: drop_bad_data)
next
  assume "length (e_data eps) < 10"
  then show "preprocess_raw_reject lib eps = preprocess_raw_sparse lib eps"
    by (auto simp add: preprocess_raw_reject_def Let_def split: sum.splits)
qed

theorem post_pass_witness:
  "\<exists>final rlog. preprocess_raw_reject sample_library ten_epochs = Inr (final, rlog) \<and>
      length (e_data final) = 9 \<and> length (e_data ten_epochs) = 10 \<and>
      bad_epochs rlog = replicate 10 False \<and>
      preprocess_raw_reject sample_library three_epochs =
        preprocess_raw_sparse sample_library three_epochs"
proof -
  let ?rlog = "\<lparr>bad_epochs = replicate (length (e_data ten_epochs)) False,
                labels = replicate (length (e_data ten_epochs))
                           (replicate (length (e_ch_names ten_epochs)) 0),
                log_ch_names = e_ch_names ten_epochs\<rparr>"
  have h: "10 \<le> length (e_data ten_epochs) \<and>
      autoreject_fit_transform sample_library (autoreject_arguments ten_epochs) ten_epochs =
        Inr (ten_epochs, ?rlog) \<and>
      get_rejection_threshold sample_library ten_epochs = Inr (1 / 10000)"
    by (simp add: sample_library_def sample_threshold_def ten_epochs_def)
  have s: "length (e_data three_epochs) < 10"
    by (simp add: three_epochs_def)
  from post_pass [of ten_epochs sample_library ten_epochs ?rlog "1 / 10000"] h
  obtain final where
    f: "preprocess_raw_reject sample_library ten_epochs = Inr (final, ?rlog)"
       "e_data final = filter (\<lambda>ep. \<not> exceeds (1 / 10000) ep) (e_data ten_epochs)"
    by blast
  have "length (e_data final) = 9"
    unfolding f(2) by (simp add: ten_epochs_def exceeds_def ptp_def)
  moreover have "preprocess_raw_reject sample_library three_epochs =
        preprocess_raw_sparse sample_library three_epochs"
    using post_pass [of three_epochs sample_library] s by blast
  ultimately show ?thesis
    using f(1) by (simp add: ten_epochs_def)
qed

text \<open>
  Claim C6, as amended. With \<open>n \<ge> 10\<close> epochs the rejector runs AutoReject with
  \<open>cv = min(5, n // 2)\<close> folds (which is 5), the candidate interpolation counts
  \<open>[1, 2, 3, 4]\<close> whatever the number of channels, and the fixed seed 42, and then the
  second pass on what AutoReject returns.
\<close>

theorem adaptive_policy_arguments:
  "10 \<le> length (e_data eps) \<longrightarrow>
     preprocess_raw_reject lib eps =
       (case autoreject_fit_transform lib (autoreject_arguments eps) eps of
          Inl e \<Rightarrow> Inl e
        | Inr (clean1, rlog) \<Rightarrow>
            (case get_rejection_threshold lib clean1 of
               Inl e \<Rightarrow> Inl e
             | Inr thr \<Rightarrow> Inr (drop_bad clean1 thr, rlog))) \<and>
     cv (autoreject_arguments eps) = min 5 (length (e_data eps) div 2) \<and>
     cv (autoreject_arguments eps) = 5 \<and>
     n_interpolate (autoreject_arguments eps) = [1, 2, 3, 4] \<and>
     random_state (autoreject_arguments eps) = 42"
  by (auto simp add: preprocess_raw_reject_def preprocess_raw_adaptive_def
      autoreject_arguments_def Let_def split: sum.splits)

theorem adaptive_policy_arguments_witness:
  "10 \<le> length (e_data ten_epochs) \<and>
   cv (autoreject_arguments ten_epochs) = 5 \<and>
   n_interpolate (autoreject_arguments ten_epochs) = [1, 2, 3, 4] \<and>
   random_state (autoreject_arguments ten_epochs) = 42"
  using adaptive_policy_arguments [of ten_epochs sample_library]
  by (simp add: ten_epochs_def)

text \<open>
  Claim C6 as stated caps the candidates at the number of channels. For ten epochs of
  two channels the list handed to AutoReject still contains 3.
\<close>

theorem candidates_not_capped_counterexample:
  "length (e_data ten_epochs) = 10 \<and> length (e_ch_names ten_epochs) = 2 \<and>
   3 \<in> set (n_interpolate (autoreject_arguments ten_epochs)) \<and>
   \<not> 3 \<le> length (e_ch_names ten_epochs)"
  by (simp add: ten_epochs_def autoreject_arguments_def)

subsection \<open>Signal conditioning\<close>

lemma collect_Inr:
  "collect rs = Inr vs \<Longrightarrow> length vs = length rs \<and> (\<forall>k < length rs. rs ! k = Inr (vs ! k))"
proof (induction rs arbitrary: vs rule: collect.induct)
  case 1
  then show ?case by simp
next
  case (2 e rs)
  then show ?case by simp
next
  case (3 v rs)
  then obtain ws where ws: "collect rs = Inr ws" "vs = v # ws"
    by (auto split: sum.splits)
  with "3.IH" have "length ws = length rs \<and> (\<forall>k < length rs. rs ! k = Inr (ws ! k))"
    by simp
  then show ?case
    using ws(2) by (auto simp add: nth_Cons split: nat.splits)
qed

lemma raw_filter_Inr:
  assumes "raw_filter lib r l_freq h_freq = Inr r'"
  shows "ch_names r' = ch_names r" and "sfreq r' = sfreq r"
    and "length (samples r') = length (samples r)"
    and "\<forall>k < length (samples r).
           fir_filter lib l_freq h_freq (sfreq r) (samples r ! k) = Inr (samples r' ! k)"
proof -
  obtain filtered where
    c: "collect (map (fir_filter lib l_freq h_freq (sfreq r)) (samples r)) = Inr filtered"
    and r': "r' = r\<lparr>samples := filtered\<rparr>"
    using assms by (auto simp add: raw_filter_def split: sum.splits)
  show "ch_names r' = ch_names r" and "sfreq r' = sfreq r"
    by (simp_all add: r')
  show "length (samples r') = length (samples r)"
    using collect_Inr [OF c] by (simp add: r')
  show "\<forall>k < length (samples r).
           fir_filter lib l_freq h_freq (sfreq r) (samples r ! k) = Inr (samples r' ! k)"
    using collect_Inr [OF c] by (simp add: r')
qed

lemma preprocess_raw_filter_frame:
  "i < length st \<Longrightarrow> fst (preprocess_raw_filter lib st a apply_ica) ! i = st ! i"
  by (simp add: preprocess_raw_filter_def raw_copy_def Let_def nth_append split: sum.splits)

lemma preprocess_raw_filter_length:
  "length (fst (preprocess_raw_filter lib st a apply_ica)) = Suc (length st)"
  by (simp add: preprocess_raw_filter_def raw_copy_def Let_def split: sum.splits)

lemma preprocess_raw_store:
  "fst (preprocess_raw lib st a d apply_ica) = fst (preprocess_raw_filter lib st a apply_ica)"
  by (simp add: preprocess_raw_def split: prod.splits sum.splits)

text \<open>
  Claim C8. \<open>preprocess_raw\<close> leaves every object that was in the store before the call
  as it was, the recording it is given included: the filter runs on a copy at a new
  address. When the filter step returns, the conditioned copy has the channel names, the
  number of channels and the sampling rate of the input, and its channel \<open>k\<close> is the
  band-pass filter with edges 0.5 and 40 Hz applied to channel \<open>k\<close> of the input alone;
  the sample counts are those of the input for every filter that returns as many samples
  as it is given.
\<close>

theorem conditioner_keeps_input:
  assumes "a < length st"
  shows "(\<forall>i < length st. fst (preprocess_raw_filter lib st a apply_ica) ! i = st ! i) \<and>
         (\<forall>i < length st. fst (preprocess_raw lib st a d apply_ica) ! i = st ! i) \<and>
         (\<forall>st' c. preprocess_raw_filter lib st a False = (st', Inr c) \<longrightarrow>
            c = length st \<and>
            ch_names (st' ! c) = ch_names (st ! a) \<and>
            sfreq (st' ! c) = sfreq (st ! a) \<and>
            length (samples (st' ! c)) = length (samples (st ! a)) \<and>
            (\<forall>k < length (samples (st ! a)).
               fir_filter lib (1 / 2) 40 (sfreq (st ! a)) (samples (st ! a) ! k)
                 = Inr (samples (st' ! c) ! k)) \<and>
            ((\<forall>xs ys. fir_filter lib (1 / 2) 40 (sfreq (st ! a)) xs = Inr ys \<longrightarrow> length ys = length xs)
               \<longrightarrow> map length (samples (st' ! c)) = map length (samples (st ! a))))"
proof (intro conjI allI impI)
  fix i assume "i < length st"
  then show "fst (preprocess_raw_filter lib st a apply_ica) ! i = st ! i"
    by (rule preprocess_raw_filter_frame)
next
  fix i assume "i < length st"
  then show "fst (preprocess_raw lib st a d apply_ica) ! i = st ! i"
    by (simp add: preprocess_raw_store preprocess_raw_filter_frame)
next
  fix st' c
  assume run: "preprocess_raw_filter lib st a False = (st', Inr c)"
  then obtain filtered where
    f: "raw_filter lib (st ! a) (1 / 2) 40 = Inr filtered"
    and c: "c = length st" and st': "st' = (st @ [st ! a])[length st := filtered]"
    by (auto simp add: preprocess_raw_filter_def raw_copy_def Let_def split: sum.splits)
  have at: "st' ! c = filtered"
    by (simp add: c st')
  show "c = length st" by (rule c)
  show "ch_names (st' ! c) = ch_names (st ! a)"
    and "sfreq (st' ! c) = sfreq (st ! a)"
    and "length (samples (st' ! c)) = length (samples (st ! a))"
    using raw_filter_Inr(1,2,3) [OF f] by (simp_all add: at)
  show "\<And>k. k < length (samples (st ! a)) \<Longrightarrow>
          fir_filter lib (1 / 2) 40 (sfreq (st ! a)) (samples (st ! a) ! k) = Inr (samples (st' ! c) ! k)"
    using raw_filter_Inr(4) [OF f] by (simp add: at)
  show "map length (samples (st' ! c)) = map length (samples (st ! a))"
    if len: "\<forall>xs ys. fir_filter lib (1 / 2) 40 (sfreq (st ! a)) xs = Inr ys \<longrightarrow> length ys = length xs"
  proof (rule nth_equalityI)
    show "length (map length (samples (st' ! c))) = length (map length (samples (st ! a)))"
      using raw_filter_Inr(3) [OF f] by (simp add: at)
  next
    fix k assume "k < length (map length (samples (st' ! c)))"
    then have k: "k < length (samples (st ! a))"
      using raw_filter_Inr(3) [OF f] by (simp add: at)
    then have "fir_filter lib (1 / 2) 40 (sfreq (st ! a)) (samples (st ! a) ! k) = Inr (samples filtered ! k)"
      using raw_filter_Inr(4) [OF f] by simp
    then have "length (samples filtered ! k) = length (samples (st ! a) ! k)"
      using len by blast
    then show "map length (samples (st' ! c)) ! k = map length (samples (st ! a)) ! k"
      using k raw_filter_Inr(3) [OF f] by (simp add: at)
  qed
qed


theorem conditioner_keeps_input_witness:
  "fst (preprocess_raw_filter sample_library [short_recording] 0 False) ! 0 = short_recording \<and>
   fst (preprocess_raw sample_library [short_recording] 0 2 False) ! 0 = short_recording \<and>
   preprocess_raw_filter sample_library [short_recording] 0 False =
     ([short_recording, short_recording\<lparr>samples := [[- 1, 0, 1], [0, 0, 0]]\<rparr>], Inr 1) \<and>
   map length (samples (short_recording\<lparr>samples := [[- 1, 0, 1], [0, 0, 0]]\<rparr>)) =
     map length (samples short_recording)"
proof -
  have run: "preprocess_raw_filter sample_library [short_recording] 0 False =
      ([short_recording, short_recording\<lparr>samples := [[- 1, 0, 1], [0, 0, 0]]\<rparr>], Inr 1)"
    by (simp add: preprocess_raw_filter_def raw_copy_def raw_filter_def sample_library_def
        sample_fir_def short_recording_def Let_def)
  have keep: "fst (preprocess_raw_filter sample_library [short_recording] 0 False) ! 0 = short_recording"
    and keep': "fst (preprocess_raw sample_library [short_recording] 0 2 False) ! 0 = short_recording"
    using conditioner_keeps_input [of 0 "[short_recording]" sample_library False 2] by simp_all
  show ?thesis
    using run keep keep' by (simp add: short_recording_def)
qed

subsection \<open>The result of the whole function\<close>

lemma preprocess_raw_result:
  "snd (preprocess_raw lib st a d apply_ica) =
     (case raw_filter lib (st ! a) (1 / 2) 40 of
        Inl e \<Rightarrow> Inl e
      | Inr filtered \<Rightarrow>
          (case (if apply_ica
                 then ica_fit_apply lib (min 4 (length (ch_names filtered))) 42 filtered
                 else Inr filtered) of
             Inl e \<Rightarrow> Inl e
           | Inr conditioned \<Rightarrow>
               (case preprocess_raw_epochs conditioned d of
                  Inl e \<Rightarrow> Inl e
                | Inr eps \<Rightarrow> preprocess_raw_reject lib eps)))"
  by (simp add: preprocess_raw_def preprocess_raw_filter_def raw_copy_def Let_def
      split: sum.splits)

lemma preprocess_raw_same_input:
  "st ! a = st' ! a' \<Longrightarrow>
     snd (preprocess_raw lib st a d apply_ica) = snd (preprocess_raw lib st' a' d apply_ica)"
  by (simp add: preprocess_raw_result)

text \<open>
  Claim C4 says that every epoch set of fewer than ten epochs goes through the sparse
  policy: one threshold, the epochs above it dropped, and a log that adds up. The
  threshold estimator is called without \<open>cv\<close> (where the call of AutoReject adapts its
  folds to the number of epochs) and so cross-validates with five folds. On the
  recording of 1537 samples at 256 Hz, which gives three epochs of 2.0 seconds, the
  estimator raises, and \<open>preprocess_raw\<close> with it: no epoch set and no log are returned.
\<close>

theorem sparse_policy_fails_on_three_epochs:
  "snd (preprocess_raw sample_library [recording_6s] 0 2 False) =
     Inl (ValueError ''Cannot have number of splits n_splits=5 greater than the number of samples'')"
proof -
  let ?r = "recording_6s\<lparr>samples := [replicate 1537 0, replicate 1537 0]\<rparr>"
  let ?eps = "\<lparr>e_ch_names = ch_names ?r, e_sfreq = sfreq ?r, selection = [0..<(n_times ?r - 1) div 512],
               e_data = map (\<lambda>i. map (\<lambda>ch. take (512 + 1) (drop (i * 512) ch)) (samples ?r))
                          [0..<(n_times ?r - 1) div 512]\<rparr>"
  have f: "raw_filter sample_library recording_6s (1 / 2) 40 = Inr ?r"
    by (simp add: raw_filter_def sample_library_def sample_fir_def recording_6s_def
        sum_list_replicate)
  have n: "n_times ?r = 1537"
    by (simp add: n_times_def)
  have s: "sfreq ?r * 2 = real 512"
    by (simp add: recording_6s_def)
  have e: "preprocess_raw_epochs ?r 2 = Inr ?eps"
    using segmentation_integer_step [OF s] by (simp add: n)
  have three: "length (e_data ?eps) = 3"
    by (simp add: n)
  then have "get_rejection_threshold sample_library ?eps =
      Inl (ValueError ''Cannot have number of splits n_splits=5 greater than the number of samples'')"
    by (simp add: sample_library_def sample_threshold_def)
  then have "preprocess_raw_reject sample_library ?eps =
      Inl (ValueError ''Cannot have number of splits n_splits=5 greater than the number of samples'')"
    using three by (intro estimator_failure) simp_all
  then show ?thesis
    by (simp add: preprocess_raw_result f e)
qed

section \<open>Properties of process\_eeg.py\<close>

lemma raw_crop_whole:
  assumes "rectangular r" and "0 < n_times r" and "0 < sfreq r"
  shows "raw_crop r 0 (real (n_times r - 1) / sfreq r) = Inr r"
proof -
  let ?t = "real (n_times r - 1) / sfreq r"
  have t: "0 \<le> ?t"
    using assms(3) by simp
  have tsf: "?t * sfreq r = real (n_times r - 1)"
    using assms(3) by simp
  have keep: "map (\<lambda>ch. take (nat (int (n_times r - 1)) + 1 - nat 0) (drop (nat 0) ch)) (samples r)
                = samples r"
    using assms(1,2) by (intro map_idI) (simp add: rectangular_def list_all_iff)
  have "raw_crop r 0 ?t =
          Inr (r\<lparr>samples := map (\<lambda>ch. take (nat (int (n_times r - 1)) + 1 - nat 0) (drop (nat 0) ch))
                               (samples r)\<rparr>)"
    unfolding raw_crop_def Let_def mult_zero_left py_round_0 tsf py_round_of_nat
    using t by simp
  then show ?thesis
    by (simp only: keep) simp
qed

lemma total_duration_last_sample:
  "0 < n_times r \<Longrightarrow> total_duration_sec r = real (n_times r - 1) / sfreq r"
  by (simp add: total_duration_sec_def)

text \<open>
  Claim C7, as amended. A limit \<open>seconds <= 0\<close> raises ValueError. Otherwise the
  recording is cropped at \<open>min(seconds, (n_times - 1) / sfreq)\<close>, the second being the
  time of the last sample: a limit beyond it leaves the whole recording and raises
  nothing, a limit within it keeps the samples up to \<open>round(seconds * sfreq)\<close>. The crop
  comes first: the epochs are those of \<open>preprocess_raw\<close> on the cropped recording.
\<close>

theorem time_limit:
  assumes "a < length st" and "rectangular (st ! a)"
    and "0 < n_times (st ! a)" and "0 < sfreq (st ! a)"
  shows "(s \<le> 0 \<longrightarrow>
            snd (process_eeg_recording_preprocess lib st a (Some s)) =
              Inl (ValueError ''seconds must be greater than 0'')) \<and>
         limit_tmax (st ! a) s = min s (real (n_times (st ! a) - 1) / sfreq (st ! a)) \<and>
         (0 < s \<and> real (n_times (st ! a) - 1) / sfreq (st ! a) < s \<longrightarrow>
            limit_seconds (st ! a) (Some s) = Inr (st ! a)) \<and>
         (0 < s \<and> s \<le> real (n_times (st ! a) - 1) / sfreq (st ! a) \<longrightarrow>
            limit_seconds (st ! a) (Some s) =
              Inr ((st ! a)\<lparr>samples :=
                     map (take (nat (py_round (s * sfreq (st ! a))) + 1)) (samples (st ! a))\<rparr>)) \<and>
         (\<forall>limited filtered.
            limit_seconds (st ! a) seconds = Inr limited \<and>
            raw_filter lib limited (1 / 2) 40 = Inr filtered \<longrightarrow>
              snd (process_eeg_recording_preprocess lib st a seconds) =
                snd (preprocess_raw lib [limited] 0 2 False))"
proof (intro conjI allI impI)
  assume "s \<le> 0"
  then show "snd (process_eeg_recording_preprocess lib st a (Some s)) =
      Inl (ValueError ''seconds must be greater than 0'')"
    by (simp add: process_eeg_recording_preprocess_def limit_seconds_def)
next
  show "limit_tmax (st ! a) s = min s (real (n_times (st ! a) - 1) / sfreq (st ! a))"
    by (simp only: limit_tmax_def total_duration_last_sample [OF assms(3)])
next
  assume h: "0 < s \<and> real (n_times (st ! a) - 1) / sfreq (st ! a) < s"
  then have tm: "limit_tmax (st ! a) s = real (n_times (st ! a) - 1) / sfreq (st ! a)"
    by (simp only: limit_tmax_def total_duration_last_sample [OF assms(3)] min_def) simp
  have "limit_seconds (st ! a) (Some s) = raw_crop (st ! a) 0 (limit_tmax (st ! a) s)"
    using h by (simp add: limit_seconds_def)
  then show "limit_seconds (st ! a) (Some s) = Inr (st ! a)"
    by (simp only: tm raw_crop_whole [OF assms(2,3,4)])
next
  assume h: "0 < s \<and> s \<le> real (n_times (st ! a) - 1) / sfreq (st ! a)"
  then have tm: "limit_tmax (st ! a) s = s"
    by (simp only: limit_tmax_def total_duration_last_sample [OF assms(3)] min_def) simp
  have "limit_seconds (st ! a) (Some s) = raw_crop (st ! a) 0 (limit_tmax (st ! a) s)"
    using h by (simp add: limit_seconds_def)
  also have "\<dots> = raw_crop (st ! a) 0 s"
    by (simp only: tm)
  also have "\<dots> = Inr ((st ! a)\<lparr>samples :=
             map (take (nat (py_round (s * sfreq (st ! a))) + 1)) (samples (st ! a))\<rparr>)"
    using h by (simp add: raw_crop_def Let_def py_round_0)
  finally show "limit_seconds (st ! a) (Some s) =
      Inr ((st ! a)\<lparr>samples :=
             map (take (nat (py_round (s * sfreq (st ! a))) + 1)) (samples (st ! a))\<rparr>)" .
next
  fix limited filtered
  assume h: "limit_seconds (st ! a) seconds = Inr limited \<and>
            raw_filter lib limited (1 / 2) 40 = Inr filtered"
  let ?st1 = "st[a := limited]"
  let ?st3 = "(?st1 @ [?st1 ! a]) @ [(?st1 @ [?st1 ! a]) ! a]"
  have at: "(?st1 @ [?st1 ! a]) ! a = limited"
    using assms(1) by (simp add: nth_append)
  have run: "process_eeg_recording_preprocess lib st a seconds =
      preprocess_raw lib (?st3[Suc (length st) := filtered]) a 2 False"
    using h at by (simp add: process_eeg_recording_preprocess_def raw_copy_def Let_def)
  have "(?st3[Suc (length st) := filtered]) ! a = [limited] ! 0"
    using assms(1) by (simp add: nth_append)
  then show "snd (process_eeg_recording_preprocess lib st a seconds) =
      snd (preprocess_raw lib [limited] 0 2 False)"
    unfolding run by (rule preprocess_raw_same_input)
qed

text \<open>
  On the recording of 2560 samples at 256 Hz a limit of 1000 seconds is clamped to
  \<open>2559 / 256\<close> seconds and keeps the whole recording, a limit of 4 seconds keeps the
  1025 samples up to 4.0 seconds, and a negative limit raises.
\<close>

theorem time_limit_witness:
  "snd (process_eeg_recording_preprocess sample_library [recording_10s] 0 (Some (- 1))) =
      Inl (ValueError ''seconds must be greater than 0'') \<and>
   limit_tmax recording_10s 1000 = 2559 / 256 \<and>
   limit_seconds recording_10s (Some 1000) = Inr recording_10s \<and>
   limit_seconds recording_10s (Some 4) =
      Inr (recording_10s\<lparr>samples := [replicate 1025 (1 / 100000), replicate 1025 0]\<rparr>) \<and>
   snd (process_eeg_recording_preprocess sample_library [recording_10s] 0 (Some 1000)) =
      snd (preprocess_raw sample_library [recording_10s] 0 2 False)"
proof -
  have n: "n_times recording_10s = 2560"
    by (simp add: n_times_def recording_10s_def)
  have sf: "sfreq recording_10s = 256"
    by (simp add: recording_10s_def)
  have rect: "rectangular recording_10s"
    by (simp add: rectangular_def n) (simp add: recording_10s_def)
  have pr: "py_round 1024 = 1024"
    by (simp add: py_round_def)
  have f: "\<exists>filtered. raw_filter sample_library recording_10s (1 / 2) 40 = Inr filtered"
    by (simp add: raw_filter_def sample_library_def sample_fir_def recording_10s_def)
  note tl = time_limit [of 0 "[recording_10s]" _ sample_library, simplified, OF rect, unfolded n sf]
  have a: "snd (process_eeg_recording_preprocess sample_library [recording_10s] 0 (Some (- 1))) =
      Inl (ValueError ''seconds must be greater than 0'')"
    using tl [of "- 1"] by simp
  have t: "limit_tmax recording_10s 1000 = 2559 / 256"
    using tl [of 1000] by simp
  have b: "limit_seconds recording_10s (Some 1000) = Inr recording_10s"
    using tl [of 1000] by simp
  have c: "limit_seconds recording_10s (Some 4) =
      Inr (recording_10s\<lparr>samples := [replicate 1025 (1 / 100000), replicate 1025 0]\<rparr>)"
    using tl [of 4] by (simp add: pr) (simp add: recording_10s_def)
  have d: "snd (process_eeg_recording_preprocess sample_library [recording_10s] 0 (Some 1000)) =
      snd (preprocess_raw sample_library [recording_10s] 0 2 False)"
    using tl [of 1000 "Some 1000"] b f by auto
  show ?thesis using a t b c d by simp
qed

text \<open>
  Claim C7 as stated has a limit beyond the total duration clamped to the total
  duration, 10.0 seconds on a buffer of ten seconds. The buffer of 2560 samples at
  256 Hz lasts ten seconds, and a limit of 1000 seconds is clamped to \<open>2559 / 256\<close>
  seconds, the time of its last sample; a crop at 10.0 seconds would raise.
\<close>

theorem clamp_value_counterexample:
  "real (n_times recording_10s) / sfreq recording_10s = 10 \<and>
   limit_tmax recording_10s 1000 = 2559 / 256 \<and>
   raw_crop recording_10s 0 10 =
     Inl (ValueError ''tmax must be less than or equal to the max time'')"
  by (simp add: limit_tmax_def total_duration_sec_def raw_crop_def n_times_def recording_10s_def)

text \<open>
  The total duration is the time of the last sample: for 2560 samples at 256 Hz it is
  \<open>2559 / 256\<close> seconds, one sampling interval short of 10.
\<close>

lemma total_duration_is_last_sample_time:
  "n_times r = 2560 \<Longrightarrow> sfreq r = 256 \<Longrightarrow> total_duration_sec r = 2559 / 256"
  by (simp add: total_duration_sec_def)

end
